theory Spec2Isabelle
  imports
    Main
    "HOL-Library.Sublist"
    "HOL-Library.AList"
    "HOL-Library.Char_ord"
    "HOL-Library.List_Lexorder"
    "HOL-Library.Product_Lexorder"
    "HOL-Library.Multiset"
begin

section \<open>Paths\<close>

text \<open>
  A \<open>pathlib.Path\<close> of the file manager is always absolute: the panes start at the
  working and the home directory and every later path is a child or the parent of a pane
  directory. An absolute path is the list of its components below the root, the root
  itself being the empty list. Symbolic links and the home shortcut are not part of the
  model, so \<open>expanduser().resolve()\<close> maps such a path to itself.
\<close>

type_synonym path = "string list"

definition parent :: "path \<Rightarrow> path" where
  "parent p = butlast p"

definition name :: "path \<Rightarrow> string" where
  "name p = (if p = [] then [] else last p)"

text \<open>
  Text that reaches a path from the keyboard is split at the separator; empty
  components and \<open>.\<close> are dropped, as \<open>pathlib\<close> does when it parses a segment.
\<close>

fun split_sep :: "string \<Rightarrow> string list" where
  "split_sep [] = [[]]"
| "split_sep (c # cs) =
     (if c = CHR ''/'' then [] # split_sep cs
      else (case split_sep cs of [] \<Rightarrow> [[c]] | w # ws \<Rightarrow> (c # w) # ws))"

definition parts :: "string \<Rightarrow> string list" where
  "parts s = filter (\<lambda>w. w \<noteq> [] \<and> w \<noteq> ''.'') (split_sep s)"

text \<open>\<open>d / s\<close>: an absolute segment replaces the left operand.\<close>

definition joinpath :: "path \<Rightarrow> string \<Rightarrow> path" where
  "joinpath d s = (if s \<noteq> [] \<and> hd s = CHR ''/'' then parts s else d @ parts s)"

section \<open>Exceptions\<close>

datatype exn =
    FileExistsError
  | FileNotFoundError
  | NotADirectoryError
  | IsADirectoryError
  | PermissionError
  | OSError
  | ShutilError
  | CursesError
  | ValueError
  | IndexError

text \<open>
  The first five are the subclasses of \<open>OSError\<close> that Python raises for the matching
  \<open>errno\<close>; \<open>OSError\<close> itself stands for the remaining ones (a busy target, a
  directory that is not empty, a time that \<open>localtime\<close> cannot convert).
  \<open>except OSError\<close> catches all of these and \<open>shutil.Error\<close>, which derives from
  \<open>OSError\<close>; \<open>curses.error\<close>, \<open>ValueError\<close> and \<open>IndexError\<close> are not among
  them.
  \<open>except Exception\<close> catches every value of \<open>exn\<close>.
\<close>

fun is_oserror :: "exn \<Rightarrow> bool" where
  "is_oserror ValueError = False"
| "is_oserror IndexError = False"
| "is_oserror CursesError = False"
| "is_oserror _ = True"

section \<open>The file system\<close>

text \<open>
  The file system is a tree of regular files and directories. A file carries its
  content; both carry what \<open>stat\<close> reports: the permission bits and the modification
  time in seconds since the epoch. There are no links or special files. The program runs
  as the owner of every node and not as the superuser. Of the permission bits the model
  enforces the owner's write bit of a directory, which the system demands for adding an
  entry to the directory and for removing one; every directory can be read and
  searched and every file can be read.
\<close>

record fstat =
  st_perm :: int
  st_mtime :: int

datatype node =
    File fstat string
  | Dir fstat "(string \<times> node) list"

fun lookup :: "node \<Rightarrow> path \<Rightarrow> node option" where
  "lookup n [] = Some n"
| "lookup (File st c) (x # xs) = None"
| "lookup (Dir st kids) (x # xs) =
     (case map_of kids x of None \<Rightarrow> None | Some k \<Rightarrow> lookup k xs)"

definition exists_path :: "node \<Rightarrow> path \<Rightarrow> bool" where
  "exists_path fs p = (lookup fs p \<noteq> None)"

definition is_dir :: "node \<Rightarrow> path \<Rightarrow> bool" where
  "is_dir fs p = (case lookup fs p of Some (Dir st kids) \<Rightarrow> True | _ \<Rightarrow> False)"

definition is_file :: "node \<Rightarrow> path \<Rightarrow> bool" where
  "is_file fs p = (case lookup fs p of Some (File st c) \<Rightarrow> True | _ \<Rightarrow> False)"

text \<open>Why a path that is not there cannot be reached: a file or nothing is in the way.\<close>

fun missing :: "node \<Rightarrow> path \<Rightarrow> exn" where
  "missing (File st c) (x # xs) = NotADirectoryError"
| "missing (Dir st kids) (x # xs) =
     (case map_of kids x of None \<Rightarrow> FileNotFoundError | Some k \<Rightarrow> missing k xs)"
| "missing n [] = FileNotFoundError"

definition stat :: "node \<Rightarrow> path \<Rightarrow> exn + node" where
  "stat fs p = (case lookup fs p of None \<Rightarrow> Inl (missing fs p) | Some n \<Rightarrow> Inr n)"

definition iterdir :: "node \<Rightarrow> path \<Rightarrow> exn + path list" where
  "iterdir fs p =
     (case lookup fs p of
        None \<Rightarrow> Inl (missing fs p)
      | Some (File st c) \<Rightarrow> Inl NotADirectoryError
      | Some (Dir st kids) \<Rightarrow> Inr (map (\<lambda>kv. p @ [fst kv]) kids))"

text \<open>
  A directory made by the program: mode \<open>0o755\<close>; the clock is not modelled, so its
  time is the epoch.
\<close>

definition new_dir :: node where
  "new_dir = Dir \<lparr>st_perm = 493, st_mtime = 0\<rparr> []"

text \<open>
  \<open>graft fs p m\<close> puts the tree \<open>m\<close> at \<open>p\<close>, making the missing directories on the
  way as \<open>os.makedirs\<close> does; a file on the way is an error.
\<close>

fun graft :: "node \<Rightarrow> path \<Rightarrow> node \<Rightarrow> exn + node" where
  "graft n [] m = Inr m"
| "graft (File st c) (x # xs) m = Inl NotADirectoryError"
| "graft (Dir st kids) (x # xs) m =
     (case graft (case map_of kids x of None \<Rightarrow> new_dir | Some k \<Rightarrow> k) xs m of
        Inl e \<Rightarrow> Inl e
      | Inr k' \<Rightarrow> Inr (Dir st (AList.update x k' kids)))"

text \<open>\<open>remove fs p\<close> takes the whole tree at \<open>p\<close> away; the root stays.\<close>

fun remove :: "node \<Rightarrow> path \<Rightarrow> node" where
  "remove n [] = n"
| "remove (File st c) (x # xs) = File st c"
| "remove (Dir st kids) [x] = Dir st (AList.delete x kids)"
| "remove (Dir st kids) (x # y # ys) =
     (case map_of kids x of
        None \<Rightarrow> Dir st kids
      | Some k \<Rightarrow> Dir st (AList.update x (remove k (y # ys)) kids))"

definition has_bit :: "int \<Rightarrow> int \<Rightarrow> bool" where
  "has_bit m b = odd (m div b)"

text \<open>The owner may add entries to a directory and remove them: bit \<open>0o200\<close>.\<close>

definition writable :: "node \<Rightarrow> path \<Rightarrow> bool" where
  "writable fs p =
     (case lookup fs p of Some (Dir st kids) \<Rightarrow> has_bit (st_perm st) 128 | _ \<Rightarrow> False)"

text \<open>\<open>put fs p n\<close> replaces the node at a path that is there.\<close>

definition put :: "node \<Rightarrow> path \<Rightarrow> node \<Rightarrow> node" where
  "put fs p n = (case graft fs p n of Inl e \<Rightarrow> fs | Inr fs' \<Rightarrow> fs')"

text \<open>
  The operations of the library change the file system and may raise after they have
  changed part of it. Each returns the exception it raises, if any, and the file system
  it leaves behind.

  The kernel's walk along components typed by the user: every step needs a directory to
  stand in, and \<open>..\<close> steps to the parent.
\<close>

definition not_a_dir :: "node \<Rightarrow> path \<Rightarrow> exn" where
  "not_a_dir fs p = (if is_file fs p then NotADirectoryError else missing fs p)"

fun walk :: "node \<Rightarrow> path \<Rightarrow> string list \<Rightarrow> exn + path" where
  "walk fs cur [] = Inr cur"
| "walk fs cur (x # xs) =
     (if \<not> is_dir fs cur then Inl (not_a_dir fs cur)
      else walk fs (if x = ''..'' then parent cur else cur @ [x]) xs)"

text \<open>\<open>Path.mkdir(parents=False, exist_ok=False)\<close>.\<close>

definition mkdir :: "node \<Rightarrow> path \<Rightarrow> exn option \<times> node" where
  "mkdir fs t =
     (if t = [] then (Some FileExistsError, fs)
      else case walk fs [] (butlast t) of
        Inl e \<Rightarrow> (Some e, fs)
      | Inr d \<Rightarrow>
          if \<not> is_dir fs d then (Some (not_a_dir fs d), fs)
          else if last t = ''..'' \<or> exists_path fs (d @ [last t]) then (Some FileExistsError, fs)
          else if \<not> writable fs d then (Some PermissionError, fs)
          else (None, put fs (d @ [last t]) new_dir))"

text \<open>
  \<open>Path.rename\<close>, that is \<open>os.rename\<close>, for a target beside the source: a file
  replaces a file, a directory replaces an empty directory, everything else is refused.
  A target whose last component is \<open>.\<close> or \<open>..\<close> is refused as busy.
\<close>

definition os_rename :: "node \<Rightarrow> path \<Rightarrow> path \<Rightarrow> exn option \<times> node" where
  "os_rename fs src dst =
     (case lookup fs src of
        None \<Rightarrow> (Some (missing fs src), fs)
      | Some n \<Rightarrow>
          if name dst = ''..'' \<or> name dst = ''.'' then (Some OSError, fs)
          else if dst = src then (None, fs)
          else if \<not> writable fs (parent src) \<or> \<not> writable fs (parent dst)
            then (Some PermissionError, fs)
          else (case (n, lookup fs dst) of
                  (_, None) \<Rightarrow> (None, remove (put fs dst n) src)
                | (File st c, Some (File st' c')) \<Rightarrow> (None, remove (put fs dst n) src)
                | (File st c, Some (Dir st' kids')) \<Rightarrow> (Some IsADirectoryError, fs)
                | (Dir st kids, Some (File st' c')) \<Rightarrow> (Some NotADirectoryError, fs)
                | (Dir st kids, Some (Dir st' kids')) \<Rightarrow>
                    if kids' = [] then (None, remove (put fs dst n) src)
                    else (Some OSError, fs)))"

text \<open>
  \<open>shutil.copy2\<close> copies content, mode and times of a file into an existing directory.
\<close>

definition copy2 :: "node \<Rightarrow> path \<Rightarrow> path \<Rightarrow> exn option \<times> node" where
  "copy2 fs src dst =
     (case lookup fs src of
        None \<Rightarrow> (Some (missing fs src), fs)
      | Some (Dir st kids) \<Rightarrow> (Some IsADirectoryError, fs)
      | Some (File st c) \<Rightarrow>
          if \<not> is_dir fs (parent dst) then (Some (not_a_dir fs (parent dst)), fs)
          else if \<not> writable fs (parent dst) then (Some PermissionError, fs)
          else (case graft fs dst (File st c) of
                  Inl e \<Rightarrow> (Some e, fs)
                | Inr fs' \<Rightarrow> (None, fs')))"

text \<open>
  \<open>shutil.copytree\<close> lists the source, makes the target directory with
  \<open>os.makedirs\<close> (the directories missing on the way included, below the deepest
  directory that is there, the \<open>anchor\<close>), and copies the entries, listing each
  subdirectory when it comes to it. When the target lies inside a subdirectory of the
  source that exists, that listing finds the copy under way and the copying runs into
  itself until a path becomes too long; \<open>copytree\<close> then raises, and what it leaves
  behind holds at least the target directory.
\<close>

definition anchor :: "node \<Rightarrow> path \<Rightarrow> path" where
  "anchor fs p = last (filter (exists_path fs) (prefixes p))"

definition runs_into_itself :: "node \<Rightarrow> path \<Rightarrow> path \<Rightarrow> bool" where
  "runs_into_itself fs src dst =
     (prefix src dst \<and> Suc (length src) < length dst \<and> is_dir fs (take (Suc (length src)) dst))"

definition copytree :: "node \<Rightarrow> path \<Rightarrow> path \<Rightarrow> exn option \<times> node" where
  "copytree fs src dst =
     (case lookup fs src of
        None \<Rightarrow> (Some (missing fs src), fs)
      | Some (File st c) \<Rightarrow> (Some NotADirectoryError, fs)
      | Some (Dir st kids) \<Rightarrow>
          if exists_path fs dst then (Some FileExistsError, fs)
          else (case graft fs dst (Dir st kids) of
                  Inl e \<Rightarrow> (Some e, fs)
                | Inr fs' \<Rightarrow>
                    if \<not> writable fs (anchor fs dst) then (Some PermissionError, fs)
                    else if runs_into_itself fs src dst
                      then (Some ShutilError, put fs dst (Dir st []))
                    else (None, fs')))"

text \<open>
  \<open>shutil.rmtree\<close> removes the entries of a directory in the order of the listing,
  the content of a subdirectory before the subdirectory, and then the directory. It
  raises at the first entry it cannot remove; what it removed before stays removed.
  \<open>rm_kids w kids\<close> empties a directory that is writable or not, \<open>w\<close>, and returns
  what is left of it.
\<close>

fun rm_kids :: "bool \<Rightarrow> (string \<times> node) list \<Rightarrow> exn option \<times> (string \<times> node) list" where
  "rm_kids w [] = (None, [])"
| "rm_kids w ((x, File st c) # ks) =
     (if w then rm_kids w ks else (Some PermissionError, (x, File st c) # ks))"
| "rm_kids w ((x, Dir st kids) # ks) =
     (case rm_kids (has_bit (st_perm st) 128) kids of
        (Some e, kids') \<Rightarrow> (Some e, (x, Dir st kids') # ks)
      | (None, kids') \<Rightarrow>
          if w then rm_kids w ks else (Some PermissionError, (x, Dir st kids') # ks))"

definition rmtree :: "node \<Rightarrow> path \<Rightarrow> exn option \<times> node" where
  "rmtree fs p =
     (case lookup fs p of
        None \<Rightarrow> (Some (missing fs p), fs)
      | Some (File st c) \<Rightarrow> (Some NotADirectoryError, fs)
      | Some (Dir st kids) \<Rightarrow>
          (case rm_kids (has_bit (st_perm st) 128) kids of
             (Some e, kids') \<Rightarrow> (Some e, put fs p (Dir st kids'))
           | (None, kids') \<Rightarrow>
               if p = [] then (Some OSError, put fs p (Dir st kids'))
               else if writable fs (parent p) then (None, remove fs p)
               else (Some PermissionError, put fs p (Dir st kids'))))"

text \<open>
  \<open>Path.unlink\<close>, and \<open>Path.unlink(missing_ok=True)\<close>, which swallows only the error
  of a missing file.
\<close>

definition unlink :: "node \<Rightarrow> path \<Rightarrow> exn option \<times> node" where
  "unlink fs p =
     (case lookup fs p of
        None \<Rightarrow> (Some (missing fs p), fs)
      | Some n \<Rightarrow>
          if p = [] then (Some IsADirectoryError, fs)
          else if \<not> writable fs (parent p) then (Some PermissionError, fs)
          else (case n of
                  Dir st kids \<Rightarrow> (Some IsADirectoryError, fs)
                | File st c \<Rightarrow> (None, remove fs p)))"

definition unlink_missing_ok :: "node \<Rightarrow> path \<Rightarrow> exn option \<times> node" where
  "unlink_missing_ok fs p =
     (case unlink fs p of
        (Some e, fs') \<Rightarrow> if e = FileNotFoundError then (None, fs') else (Some e, fs')
      | (None, fs') \<Rightarrow> (None, fs'))"

text \<open>
  \<open>shutil.move\<close> to a target that does not exist (the only way the program calls it).
  It tries \<open>os.rename\<close>, which moves the node in one step when the source and the
  directory of the target are there, both directories can be written, a directory that
  changes its parent can be written itself, and the target is not inside the source.
  When the rename fails, a directory is copied with \<open>copytree\<close> and removed with
  \<open>rmtree\<close>, unless the target lies inside it, and everything else is copied with
  \<open>copy2\<close> and removed with \<open>unlink\<close>; a failure of the removal leaves the copy.
\<close>

definition rename_works :: "node \<Rightarrow> path \<Rightarrow> path \<Rightarrow> bool" where
  "rename_works fs src dst =
     (src \<noteq> [] \<and> exists_path fs src \<and> is_dir fs (parent dst)
      \<and> writable fs (parent src) \<and> writable fs (parent dst) \<and> \<not> prefix src dst
      \<and> (is_file fs src \<or> parent src = parent dst \<or> writable fs src))"

definition shutil_move :: "node \<Rightarrow> path \<Rightarrow> path \<Rightarrow> exn option \<times> node" where
  "shutil_move fs src dst =
     (case lookup fs src of
        None \<Rightarrow> (Some (missing fs src), fs)
      | Some n \<Rightarrow>
          if rename_works fs src dst then (None, remove (put fs dst n) src)
          else (case n of
                  File st c \<Rightarrow>
                    (case copy2 fs src dst of
                       (Some e, fs') \<Rightarrow> (Some e, fs')
                     | (None, fs') \<Rightarrow> unlink fs' src)
                | Dir st kids \<Rightarrow>
                    if prefix src dst then (Some ShutilError, fs)
                    else (case copytree fs src dst of
                            (Some e, fs') \<Rightarrow> (Some e, fs')
                          | (None, fs') \<Rightarrow> rmtree fs' src)))"

section \<open>Text rendering used by the formatter\<close>

text \<open>
  Numbers are printed in decimal; the numbers printed here, sizes and parts of a date,
  are never negative.
\<close>

definition digit :: "int \<Rightarrow> char" where
  "digit d = char_of (48 + d mod 10)"

function str_int :: "int \<Rightarrow> string" where
  "str_int n = (if n < 10 then [digit n] else str_int (n div 10) @ [digit n])"
  by pat_completeness auto
termination
  by (relation "measure nat") auto

declare str_int.simps [simp del]

definition pad2 :: "int \<Rightarrow> string" where
  "pad2 n = [digit (n div 10), digit n]"

text \<open>The format specification \<open>:>8\<close>: pad on the left to the width, never cut.\<close>

definition rjust :: "nat \<Rightarrow> string \<Rightarrow> string" where
  "rjust w s = replicate (w - length s) CHR '' '' @ s"

text \<open>
  \<open>stat.filemode\<close>: the type letter, then three letters for each of owner, group and
  others, the execute position also showing set-uid, set-gid and the sticky bit.
\<close>

definition rwx :: "int \<Rightarrow> int \<Rightarrow> int \<Rightarrow> int \<Rightarrow> int \<Rightarrow> char \<Rightarrow> char \<Rightarrow> string" where
  "rwx m r w x sp lo up =
     [if has_bit m r then CHR ''r'' else CHR ''-'',
      if has_bit m w then CHR ''w'' else CHR ''-'',
      if has_bit m x \<and> has_bit m sp then lo
      else if has_bit m sp then up
      else if has_bit m x then CHR ''x'' else CHR ''-'']"

definition perm_string :: "int \<Rightarrow> string" where
  "perm_string m =
     rwx m 256 128 64 2048 CHR ''s'' CHR ''S''
     @ rwx m 32 16 8 1024 CHR ''s'' CHR ''S''
     @ rwx m 4 2 1 512 CHR ''t'' CHR ''T''"

text \<open>What \<open>stat\<close> reports of a node: its mode and times, and its size in bytes.\<close>

fun st_of :: "node \<Rightarrow> fstat" where
  "st_of (File st c) = st"
| "st_of (Dir st kids) = st"

fun st_size :: "node \<Rightarrow> int" where
  "st_size (File st c) = int (length c)"
| "st_size (Dir st kids) = 4096"

fun filemode :: "node \<Rightarrow> string" where
  "filemode (File st c) = CHR ''-'' # perm_string (st_perm st)"
| "filemode (Dir st kids) = CHR ''d'' # perm_string (st_perm st)"

text \<open>
  \<open>datetime.fromtimestamp(t).strftime("%Y-%m-%d %H:%M")\<close> for a time of whole seconds,
  with the local time zone taken to be UTC. \<open>localtime\<close> fails with an \<open>OSError\<close> where
  the year does not fit its 32-bit field. The date is the proleptic Gregorian one of the
  day number; a \<open>datetime\<close> holds the years 1 to 9999 only and \<open>fromtimestamp\<close> raises
  \<open>ValueError\<close> outside them. The C library prints the year without padding.
\<close>

definition civil :: "int \<Rightarrow> int \<times> int \<times> int" where
  "civil days =
     (let z = days + 719468;
          era = z div 146097;
          doe = z mod 146097;
          yoe = (doe - doe div 1460 + doe div 36524 - doe div 146096) div 365;
          doy = doe - (365 * yoe + yoe div 4 - yoe div 100);
          mp = (5 * doy + 2) div 153;
          d = doy - (153 * mp + 2) div 5 + 1;
          m = (if mp < 10 then mp + 3 else mp - 9);
          y = yoe + era * 400 + (if m \<le> 2 then 1 else 0)
      in (y, m, d))"

definition strftime :: "int \<Rightarrow> exn + string" where
  "strftime t =
     (case civil (t div 86400) of (y, m, d) \<Rightarrow>
        if t < - 67768040609740800 \<or> 67767976233532799 < t then Inl OSError
        else if y < 1 \<or> 9999 < y then Inl ValueError
        else Inr (str_int y @ ''-'' @ pad2 m @ ''-'' @ pad2 d @ '' ''
                  @ pad2 (t mod 86400 div 3600) @ '':''
                  @ pad2 (t mod 3600 div 60)))"

text \<open>
  \<open>str.lower\<close> and the white space of \<open>str.strip\<close>, on the code points below 256.
\<close>

definition lower_char :: "char \<Rightarrow> char" where
  "lower_char c =
     (let n = of_char c :: int
      in if (65 \<le> n \<and> n \<le> 90) \<or> (192 \<le> n \<and> n \<le> 222 \<and> n \<noteq> 215)
         then char_of (n + 32) else c)"

definition lower :: "string \<Rightarrow> string" where
  "lower s = map lower_char s"

definition is_space :: "char \<Rightarrow> bool" where
  "is_space c =
     (let n = of_char c :: int
      in (9 \<le> n \<and> n \<le> 13) \<or> (28 \<le> n \<and> n \<le> 32) \<or> n = 133 \<or> n = 160)"

definition strip :: "string \<Rightarrow> string" where
  "strip s = rev (dropWhile is_space (rev (dropWhile is_space s)))"

section \<open>The file manager\<close>

subsection \<open>PaneState\<close>

record PaneState =
  path :: path
  cursor :: int
  entries :: "path list"

text \<open>The sort key of \<open>PaneState.refresh\<close>: \<open>(p.is_file(), p.name.lower())\<close>.\<close>

definition entry_key :: "node \<Rightarrow> path \<Rightarrow> bool \<times> string" where
  "entry_key fs p = (is_file fs p, lower (name p))"

definition pane_refresh :: "node \<Rightarrow> PaneState \<Rightarrow> exn + PaneState" where
  "pane_refresh fs pane =
     (case iterdir fs (path pane) of
        Inl e \<Rightarrow> Inl e
      | Inr items \<Rightarrow>
          let es = parent (path pane) # sort_key (entry_key fs) items;
              c = (if cursor pane \<ge> int (length es) then max 0 (int (length es) - 1)
                   else cursor pane)
          in Inr (pane\<lparr>entries := es, cursor := c\<rparr>))"

text \<open>
  \<open>selected\<close> indexes the list as Python does: a negative index counts from the end,
  an index outside the list raises.
\<close>

definition selected :: "PaneState \<Rightarrow> exn + path" where
  "selected pane =
     (if entries pane = [] then Inr (path pane)
      else let n = int (length (entries pane));
               j = (if cursor pane < 0 then n + cursor pane else cursor pane)
           in if 0 \<le> j \<and> j < n then Inr (entries pane ! nat j) else Inl IndexError)"

subsection \<open>format_entry\<close>

text \<open>
  The body of the \<open>try\<close> block: the three columns that need \<open>stat\<close>, or the exception
  that one of the calls raises. \<open>is_dir\<close>, which \<open>format_entry\<close> also calls before the
  \<open>try\<close>, answers \<open>False\<close> for a path that is not there and raises only where a
  directory on the way cannot be searched, which the model leaves out.
\<close>

definition stat_columns :: "node \<Rightarrow> path \<Rightarrow> exn + string \<times> string \<times> string" where
  "stat_columns fs p =
     (case stat fs p of
        Inl e \<Rightarrow> Inl e
      | Inr info \<Rightarrow>
          let sz = (if is_dir fs p then ''<DIR>'' else rjust 8 (str_int (st_size info)))
          in case strftime (st_mtime (st_of info)) of
               Inl e \<Rightarrow> Inl e
             | Inr mtime \<Rightarrow> Inr (filemode info, sz, mtime))"

definition format_entry :: "node \<Rightarrow> path \<Rightarrow> exn + string" where
  "format_entry fs p =
     (if p = parent p then Inr ''[..]''
      else
        let nm = name p @ (if is_dir fs p then ''/'' else [])
        in case (case stat_columns fs p of
                   Inl e \<Rightarrow> if is_oserror e then Inr (''??????????'', ''?'', ''?'') else Inl e
                 | Inr r \<Rightarrow> Inr r) of
             Inl e \<Rightarrow> Inl e
           | Inr (mode, sz, mtime) \<Rightarrow>
               Inr (mode @ '' '' @ rjust 8 sz @ '' '' @ mtime @ '' '' @ nm))"

subsection \<open>copy_or_move\<close>

text \<open>
  The result is what the call returns or raises, paired with the file system it leaves
  behind.
\<close>

definition copy_or_move :: "path \<Rightarrow> path \<Rightarrow> bool \<Rightarrow> node \<Rightarrow> (exn + path) \<times> node" where
  "copy_or_move src dst_dir move fs =
     (let dst = joinpath dst_dir (name src)
      in if exists_path fs dst then (Inl FileExistsError, fs)
         else case (if move then shutil_move fs src dst
                    else if is_dir fs src then copytree fs src dst
                    else copy2 fs src dst) of
                (Some e, fs') \<Rightarrow> (Inl e, fs')
              | (None, fs') \<Rightarrow> (Inr dst, fs'))"

subsection \<open>FileManager\<close>

text \<open>
  The status line holds one of the program's messages. The texts themselves are Russian
  sentences with the name or the exception appended; the constructors stand for them:
  \<open>Help\<close> is the key summary shown at the start, \<open>Failed e\<close> is the text made from the
  exception \<open>e\<close> that the event loop caught.
\<close>

datatype status =
    Help
  | Opening string
  | OpenFailed exn
  | CannotDeleteParent
  | Deleted string
  | NothingToRename
  | RenameCancelled
  | Renamed string
  | MkdirCancelled
  | DirCreated string
  | Copied string
  | Moved string
  | Refreshed
  | Failed exn

record FileManager =
  panes :: "PaneState list"
  active :: nat
  status :: status

definition init :: "path \<Rightarrow> path \<Rightarrow> FileManager" where
  "init left right =
     \<lparr>panes = [\<lparr>path = left, cursor = 0, entries = []\<rparr>,
               \<lparr>path = right, cursor = 0, entries = []\<rparr>],
      active = 0, status = Help\<rparr>"

definition other_index :: "FileManager \<Rightarrow> nat" where
  "other_index fm = 1 - active fm"

text \<open>
  \<open>FileManager.refresh\<close> refreshes the panes in order; the first exception ends the
  loop and leaves the later panes as they were.
\<close>

fun refresh_panes :: "node \<Rightarrow> PaneState list \<Rightarrow> exn option \<times> PaneState list" where
  "refresh_panes fs [] = (None, [])"
| "refresh_panes fs (p # ps) =
     (case pane_refresh fs p of
        Inl e \<Rightarrow> (Some e, p # ps)
      | Inr p' \<Rightarrow> (case refresh_panes fs ps of (r, ps') \<Rightarrow> (r, p' # ps')))"

definition refresh :: "node \<Rightarrow> FileManager \<Rightarrow> exn option \<times> FileManager" where
  "refresh fs fm = (case refresh_panes fs (panes fm) of (r, ps) \<Rightarrow> (r, fm\<lparr>panes := ps\<rparr>))"

text \<open>
  The methods below change the manager and the file system. Each returns the exception
  it raises, if any, with the manager and the file system as it leaves them.
\<close>

type_synonym world = "FileManager \<times> node"

text \<open>
  \<open>prompt\<close> writes the question on the bottom row, reads a line with \<open>getstr\<close> and
  returns it decoded and stripped. The terminal is outside the program: \<open>answer\<close> is
  what its calls give, the decoded line that \<open>getstr\<close> returns or the exception that
  one of the calls raises (the bottom row refusing the text, \<open>getstr\<close> refusing a
  negative width).
\<close>

definition prompt :: "exn + string \<Rightarrow> exn + string" where
  "prompt answer = (case answer of Inl e \<Rightarrow> Inl e | Inr line \<Rightarrow> Inr (strip line))"

text \<open>
  \<open>open_entry\<close>: the launch of the external opener either works or raises; \<open>launch\<close> is
  what it raises.
\<close>

definition open_entry :: "path \<Rightarrow> exn option \<Rightarrow> world \<Rightarrow> exn option \<times> world" where
  "open_entry entry launch w =
     (case w of (fm, fs) \<Rightarrow>
        if is_dir fs entry
        then (None, fm\<lparr>panes := (panes fm)[active fm :=
                (panes fm ! active fm)\<lparr>path := entry, cursor := 0\<rparr>]\<rparr>, fs)
        else (case launch of
                None \<Rightarrow> (None, fm\<lparr>status := Opening (name entry)\<rparr>, fs)
              | Some e \<Rightarrow> (None, fm\<lparr>status := OpenFailed e\<rparr>, fs)))"

definition delete_entry :: "path \<Rightarrow> world \<Rightarrow> exn option \<times> world" where
  "delete_entry entry w =
     (case w of (fm, fs) \<Rightarrow>
        if entry = parent entry then (None, fm\<lparr>status := CannotDeleteParent\<rparr>, fs)
        else (case (if is_dir fs entry then rmtree fs entry
                    else unlink_missing_ok fs entry) of
                (Some e, fs') \<Rightarrow> (Some e, fm, fs')
              | (None, fs') \<Rightarrow> (None, fm\<lparr>status := Deleted (name entry)\<rparr>, fs')))"

text \<open>
  \<open>Path.with_name\<close> parses the new name as a path and refuses it unless it has exactly
  one component, no root and no separator at its end; the new path keeps the name as it
  was typed. For the system that path ends in \<open>.\<close> when the typed name does, and in the
  one component otherwise.
\<close>

definition with_name :: "path \<Rightarrow> string \<Rightarrow> exn + path" where
  "with_name p nm =
     (if p = [] \<or> nm = [] \<or> last nm = CHR ''/'' \<or> hd nm = CHR ''/'' \<or> length (parts nm) \<noteq> 1
      then Inl ValueError
      else Inr (parent p @ (if last (split_sep nm) = ''.'' then [''.''] else parts nm)))"

definition rename_entry :: "exn + string \<Rightarrow> path \<Rightarrow> world \<Rightarrow> exn option \<times> world" where
  "rename_entry answer entry w =
     (case w of (fm, fs) \<Rightarrow>
        if entry = parent entry then (None, fm\<lparr>status := NothingToRename\<rparr>, fs)
        else (case prompt answer of
                Inl e \<Rightarrow> (Some e, fm, fs)
              | Inr new_name \<Rightarrow>
                  if new_name = [] then (None, fm\<lparr>status := RenameCancelled\<rparr>, fs)
                  else (case with_name entry new_name of
                          Inl e \<Rightarrow> (Some e, fm, fs)
                        | Inr target \<Rightarrow>
                            (case os_rename fs entry target of
                               (Some e, fs') \<Rightarrow> (Some e, fm, fs')
                             | (None, fs') \<Rightarrow>
                                 (None, fm\<lparr>status := Renamed new_name\<rparr>, fs')))))"

definition make_dir :: "exn + string \<Rightarrow> world \<Rightarrow> exn option \<times> world" where
  "make_dir answer w =
     (case w of (fm, fs) \<Rightarrow>
        (case prompt answer of
           Inl e \<Rightarrow> (Some e, fm, fs)
         | Inr nm \<Rightarrow>
             if nm = [] then (None, fm\<lparr>status := MkdirCancelled\<rparr>, fs)
             else (case mkdir fs (joinpath (path (panes fm ! active fm)) nm) of
                     (Some e, fs') \<Rightarrow> (Some e, fm, fs')
                   | (None, fs') \<Rightarrow> (None, fm\<lparr>status := DirCreated nm\<rparr>, fs'))))"

subsection \<open>The event loop\<close>

text \<open>
  One event is what the terminal and the desktop give the loop in one iteration: the
  number of rows from \<open>getmaxyx\<close>, the exception that a terminal call of the drawing
  raises if one does, the key code from \<open>getch\<close>, the answer of the terminal at a prompt
  if one is shown, and the fate of the external opener if it is called.
\<close>

record event =
  rows :: int
  screen :: "exn option"
  key :: int
  typed :: "exn + string"
  launch :: "exn option"

definition KEY_DOWN :: int where "KEY_DOWN = 258"
definition KEY_UP :: int where "KEY_UP = 259"
definition KEY_F2 :: int where "KEY_F2 = 266"
definition KEY_F5 :: int where "KEY_F5 = 269"
definition KEY_F6 :: int where "KEY_F6 = 270"
definition KEY_F7 :: int where "KEY_F7 = 271"
definition KEY_F8 :: int where "KEY_F8 = 272"

text \<open>
  The slice \<open>xs[i:j]\<close> of Python: an index below zero counts from the end, and both
  are cut to the list.
\<close>

definition py_slice :: "'a list \<Rightarrow> int \<Rightarrow> int \<Rightarrow> 'a list" where
  "py_slice xs i j =
     (let n = int (length xs);
          a = (if i < 0 then max 0 (i + n) else min i n);
          b = (if j < 0 then max 0 (j + n) else min j n)
      in take (nat (b - a)) (drop (nat a) xs))"

text \<open>
  \<open>draw_pane\<close> formats the entries in the window around the cursor, in order. The
  model keeps what matters to the loop: the exception that the formatting raises, if
  any. The drawing of an iteration stands before the \<open>try\<close>: the two panes and the
  status line. An exception of the terminal and an exception of the formatting both
  leave \<open>run\<close>; where both would occur the model reports the terminal's.
\<close>

fun format_all :: "node \<Rightarrow> path list \<Rightarrow> exn option" where
  "format_all fs [] = None"
| "format_all fs (p # ps) =
     (case format_entry fs p of Inl e \<Rightarrow> Some e | Inr line \<Rightarrow> format_all fs ps)"

definition draw_pane :: "node \<Rightarrow> PaneState \<Rightarrow> int \<Rightarrow> exn option" where
  "draw_pane fs pane h =
     (let max_lines = h - 2;
          start = (if cursor pane \<ge> max_lines then cursor pane - max_lines + 1 else 0)
      in format_all fs (py_slice (entries pane) start (start + max_lines)))"

definition draw :: "event \<Rightarrow> world \<Rightarrow> exn option" where
  "draw ev w =
     (case screen ev of
        Some e \<Rightarrow> Some e
      | None \<Rightarrow>
          (case draw_pane (snd w) (panes (fst w) ! 0) (rows ev) of
             Some e \<Rightarrow> Some e
           | None \<Rightarrow> draw_pane (snd w) (panes (fst w) ! 1) (rows ev)))"

text \<open>
  The body of the \<open>try\<close> statement: it returns from \<open>run\<close>, or ends normally, or
  raises.
\<close>

datatype flow = Quit | Done world | Raised exn world

fun flow_of :: "exn option \<times> world \<Rightarrow> flow" where
  "flow_of (None, w) = Done w"
| "flow_of (Some e, w) = Raised e w"

definition set_cursor :: "FileManager \<Rightarrow> nat \<Rightarrow> int \<Rightarrow> FileManager" where
  "set_cursor fm i c = fm\<lparr>panes := (panes fm)[i := (panes fm ! i)\<lparr>cursor := c\<rparr>]\<rparr>"

definition dispatch :: "event \<Rightarrow> path \<Rightarrow> world \<Rightarrow> flow" where
  "dispatch ev entry w =
     (case w of (fm, fs) \<Rightarrow>
        let k = key ev; a = active fm; pane = panes fm ! a
        in if k = 113 \<or> k = 27 then Quit
           else if k = 9 then Done (fm\<lparr>active := other_index fm\<rparr>, fs)
           else if k = KEY_UP \<or> k = 107
             then Done (set_cursor fm a (max 0 (cursor pane - 1)), fs)
           else if k = KEY_DOWN \<or> k = 106
             then Done (set_cursor fm a
                          (min (int (length (entries pane)) - 1) (cursor pane + 1)), fs)
           else if k = 10 \<or> k = 13 then flow_of (open_entry entry (launch ev) w)
           else if k = KEY_F5 \<or> k = 53
             then (case copy_or_move entry (path (panes fm ! other_index fm)) False fs of
                     (Inl e, fs') \<Rightarrow> Raised e (fm, fs')
                   | (Inr target, fs') \<Rightarrow> Done (fm\<lparr>status := Copied (name target)\<rparr>, fs'))
           else if k = KEY_F6 \<or> k = 54
             then (case copy_or_move entry (path (panes fm ! other_index fm)) True fs of
                     (Inl e, fs') \<Rightarrow> Raised e (fm, fs')
                   | (Inr target, fs') \<Rightarrow> Done (fm\<lparr>status := Moved (name target)\<rparr>, fs'))
           else if k = KEY_F8 \<or> k = 56 then flow_of (delete_entry entry w)
           else if k = KEY_F7 then flow_of (make_dir (typed ev) w)
           else if k = KEY_F2 then flow_of (rename_entry (typed ev) entry w)
           else if k = 114
             then (case refresh fs fm of
                     (Some e, fm') \<Rightarrow> Raised e (fm', fs)
                   | (None, fm') \<Rightarrow> Done (fm'\<lparr>status := Refreshed\<rparr>, fs))
           else Done w)"

text \<open>
  One iteration of \<open>while True\<close>: the drawing and the reading of the selected entry
  stand before the \<open>try\<close>, an exception of the body becomes the status, and the final
  refresh stands after the \<open>try\<close> statement, outside of it. \<open>Abort e\<close> is an exception
  that leaves \<open>run\<close>.
\<close>

datatype outcome = Exit | Continue world | Abort exn

definition final_refresh :: "world \<Rightarrow> outcome" where
  "final_refresh w =
     (case w of (fm, fs) \<Rightarrow>
        (case refresh fs fm of
           (Some e, fm') \<Rightarrow> Abort e
         | (None, fm') \<Rightarrow> Continue (fm', fs)))"

definition step :: "event \<Rightarrow> world \<Rightarrow> outcome" where
  "step ev w =
     (case draw ev w of
        Some e \<Rightarrow> Abort e
      | None \<Rightarrow>
          (case selected (panes (fst w) ! active (fst w)) of
             Inl e \<Rightarrow> Abort e
           | Inr entry \<Rightarrow>
               (case dispatch ev entry w of
                  Quit \<Rightarrow> Exit
                | Done w' \<Rightarrow> final_refresh w'
                | Raised e (fm', fs') \<Rightarrow> final_refresh (fm'\<lparr>status := Failed e\<rparr>, fs'))))"

text \<open>
  \<open>run\<close>, once the terminal is set up, on the events that arrive: \<open>Continue\<close> at the
  end of the list is the loop standing at the top of its next iteration.
\<close>

fun loop :: "event list \<Rightarrow> world \<Rightarrow> outcome" where
  "loop [] w = Continue w"
| "loop (ev # evs) w =
     (case step ev w of
        Continue w' \<Rightarrow> loop evs w'
      | Exit \<Rightarrow> Exit
      | Abort e \<Rightarrow> Abort e)"

definition run :: "event list \<Rightarrow> world \<Rightarrow> outcome" where
  "run evs w =
     (case w of (fm, fs) \<Rightarrow>
        (case refresh fs fm of
           (Some e, fm') \<Rightarrow> Abort e
         | (None, fm') \<Rightarrow> loop evs (fm', fs)))"

section \<open>Invariants and example data\<close>

text \<open>
  A pane inside the event loop has been listed, so its entries are not empty, and its
  cursor points into them. A manager has exactly two panes and \<open>active\<close> names one of
  them. \<open>fm_pre\<close> is the weaker fact that holds between the body of the \<open>try\<close> and the
  refresh that follows it. A pane is \<open>fresh\<close> when listing it again changes nothing.
\<close>

definition pane_ok :: "PaneState \<Rightarrow> bool" where
  "pane_ok pane =
     (entries pane \<noteq> [] \<and> 0 \<le> cursor pane \<and> cursor pane < int (length (entries pane)))"

definition fm_ok :: "FileManager \<Rightarrow> bool" where
  "fm_ok fm = (length (panes fm) = 2 \<and> active fm < 2 \<and> list_all pane_ok (panes fm))"

definition fm_pre :: "FileManager \<Rightarrow> bool" where
  "fm_pre fm =
     (length (panes fm) = 2 \<and> active fm < 2 \<and> list_all (\<lambda>p. 0 \<le> cursor p) (panes fm))"

definition fresh :: "node \<Rightarrow> PaneState \<Rightarrow> bool" where
  "fresh fs pane = (pane_refresh fs pane = Inr pane)"

text \<open>
  A small file system for the concrete scenarios: \<open>left\<close> holds the file \<open>a.txt\<close>
  with content \<open>hello\<close> and the directory \<open>folder\<close> with the file \<open>x.txt\<close>;
  \<open>right\<close> is empty. The other constants are the trees after a copy and after a move,
  states of the manager over it, and key presses on a terminal of 24 rows.
\<close>

definition demo_dir :: fstat where "demo_dir = \<lparr>st_perm = 493, st_mtime = 0\<rparr>"
definition demo_file :: fstat where "demo_file = \<lparr>st_perm = 420, st_mtime = 1700000000\<rparr>"

definition demo_fs :: node where
  "demo_fs =
     Dir demo_dir
       [(''left'', Dir demo_dir
           [(''a.txt'', File demo_file ''hello''),
            (''folder'', Dir demo_dir [(''x.txt'', File demo_file ''x'')])]),
        (''right'', Dir demo_dir [])]"

definition demo_left :: PaneState where
  "demo_left = \<lparr>path = [''left''], cursor = 2,
                 entries = [[], [''left'', ''folder''], [''left'', ''a.txt'']]\<rparr>"

definition demo_right :: PaneState where
  "demo_right = \<lparr>path = [''right''], cursor = 0, entries = [[]]\<rparr>"

definition demo_fm :: FileManager where
  "demo_fm = \<lparr>panes = [demo_left, demo_right], active = 0, status = Help\<rparr>"

definition press :: "int \<Rightarrow> event" where
  "press k = \<lparr>rows = 24, screen = None, key = k, typed = Inr [], launch = None\<rparr>"

definition demo_down :: event where
  "demo_down = press KEY_DOWN"

definition demo_up :: event where
  "demo_up = press KEY_UP"

definition demo_delete :: event where
  "demo_delete = press KEY_F8"



definition demo_deep :: FileManager where
  "demo_deep =
     \<lparr>panes = [\<lparr>path = [''left'', ''folder''], cursor = 0,
                 entries = [[''left''], [''left'', ''folder'', ''x.txt'']]\<rparr>, demo_right],
      active = 0, status = Help\<rparr>"

text \<open>
  More example data. \<open>demo_mixed\<close> holds a directory \<open>docs\<close> with three directories
  and three files whose names differ in case, and \<open>demo_docs\<close> is its listing.
  In \<open>demo_locked\<close> the directory \<open>home\<close> has mode \<open>0o555\<close>, so nothing can be added to
  it or removed from it; \<open>demo_locked_after\<close> is that tree without \<open>home/top/a\<close>. The
  remaining constants are the example tree after the deletion of \<open>a.txt\<close>, after the
  making of \<open>new\<close> and after the renaming of \<open>a.txt\<close> to \<open>b.txt\<close>, and states of the
  manager.
\<close>

definition demo_mixed :: node where
  "demo_mixed =
     Dir demo_dir
       [(''docs'', Dir demo_dir
           [(''b.txt'', File demo_file ''b''),
            (''Zeta'', Dir demo_dir []),
            (''alpha'', Dir demo_dir []),
            (''C.txt'', File demo_file ''c''),
            (''a.txt'', File demo_file ''a''),
            (''Beta'', Dir demo_dir [])])]"

definition demo_docs :: PaneState where
  "demo_docs =
     \<lparr>path = [''docs''], cursor = 0,
      entries = [[], [''docs'', ''alpha''], [''docs'', ''Beta''], [''docs'', ''Zeta''],
                 [''docs'', ''a.txt''], [''docs'', ''b.txt''], [''docs'', ''C.txt'']]\<rparr>"

definition demo_locked :: node where
  "demo_locked =
     Dir demo_dir
       [(''home'', Dir \<lparr>st_perm = 365, st_mtime = 0\<rparr>
           [(''top'', Dir demo_dir [(''a'', Dir demo_dir [])])])]"

definition demo_locked_after :: node where
  "demo_locked_after =
     Dir demo_dir
       [(''home'', Dir \<lparr>st_perm = 365, st_mtime = 0\<rparr> [(''top'', Dir demo_dir [])])]"

definition demo_locked_fm :: FileManager where
  "demo_locked_fm =
     \<lparr>panes = [\<lparr>path = [''home''], cursor = 1, entries = [[], [''home'', ''top'']]\<rparr>,
               \<lparr>path = [''home'', ''top'', ''a''], cursor = 0, entries = [[''home'', ''top'']]\<rparr>],
      active = 0, status = Help\<rparr>"

definition demo_top :: FileManager where
  "demo_top = \<lparr>panes = [demo_left\<lparr>cursor := 0\<rparr>, demo_right], active = 0, status = Help\<rparr>"

definition demo_mid :: FileManager where
  "demo_mid = \<lparr>panes = [demo_left\<lparr>cursor := 1\<rparr>, demo_right], active = 0, status = Help\<rparr>"

definition demo_fs_deleted :: node where
  "demo_fs_deleted =
     Dir demo_dir
       [(''left'', Dir demo_dir
           [(''folder'', Dir demo_dir [(''x.txt'', File demo_file ''x'')])]),
        (''right'', Dir demo_dir [])]"

definition demo_fs_made :: node where
  "demo_fs_made =
     Dir demo_dir
       [(''left'', Dir demo_dir
           [(''a.txt'', File demo_file ''hello''),
            (''folder'', Dir demo_dir [(''x.txt'', File demo_file ''x'')]),
            (''new'', Dir demo_dir [])]),
        (''right'', Dir demo_dir [])]"

definition demo_fs_renamed :: node where
  "demo_fs_renamed =
     Dir demo_dir
       [(''left'', Dir demo_dir
           [(''folder'', Dir demo_dir [(''x.txt'', File demo_file ''x'')]),
            (''b.txt'', File demo_file ''hello'')]),
        (''right'', Dir demo_dir [])]"

section \<open>Facts about the file system operations\<close>














lemma rm_kids_done: "rm_kids w ks = (None, ks') \<Longrightarrow> ks' = []"
  by (induction w ks arbitrary: ks' rule: rm_kids.induct)
     (auto split: if_splits prod.splits option.splits)



section \<open>copy_or_move\<close>





text \<open>
  Claim C4. Whenever the target \<open>dst_dir / src.name\<close> already exists, \<open>copy_or_move\<close>
  raises \<open>FileExistsError\<close> and leaves the file system as it was, for a copy and for a
  move alike: the test comes before every call that changes something.
\<close>

theorem copy_or_move_target_exists:
  assumes "exists_path fs (joinpath dst_dir (name src))"
  shows "copy_or_move src dst_dir move fs = (Inl FileExistsError, fs)"
  using assms by (simp add: copy_or_move_def)

theorem copy_or_move_target_exists_witness:
  "exists_path demo_fs (joinpath [''left''] (name [''left'', ''a.txt'']))
   \<and> copy_or_move [''left'', ''a.txt''] [''left''] False demo_fs = (Inl FileExistsError, demo_fs)"
proof -
  have h: "exists_path demo_fs (joinpath [''left''] (name [''left'', ''a.txt'']))"
    by code_simp
  show ?thesis
    using h copy_or_move_target_exists [OF h, of False] by simp
qed





section \<open>Listing a directory\<close>

lemma pane_refresh_ok:
  assumes "pane_refresh fs pane = Inr pane'"
  shows "\<exists>items. iterdir fs (path pane) = Inr items
           \<and> entries pane' = parent (path pane) # sort_key (entry_key fs) items
           \<and> path pane' = path pane
           \<and> cursor pane' = (if cursor pane \<ge> int (length (entries pane'))
                              then int (length (entries pane')) - 1 else cursor pane)"
  using assms by (auto simp: pane_refresh_def Let_def split: sum.splits)

lemma iterdir_children:
  assumes "iterdir fs p = Inr items" and "e \<in> set items"
  shows "\<exists>x. e = p @ [x] \<and> name e = x"
  using assms
  by (auto simp: iterdir_def name_def split: option.splits node.splits)

lemma lower_ascii:
  assumes "(of_char c :: int) < 128"
  shows "lower [c] = [if 65 \<le> (of_char c :: int) \<and> (of_char c :: int) \<le> 90
                      then char_of (of_char c + 32 :: int) else c]"
  using assms by (auto simp: lower_def lower_char_def Let_def)

lemma demo_listing_mixed:
  "pane_refresh demo_mixed \<lparr>path = [''docs''], cursor = 0, entries = []\<rparr> = Inr demo_docs"
  by code_simp

text \<open>
  Claim C6. After a refresh of a pane whose directory can be listed, the first entry is
  the parent of the directory, and the entries after it are the children of the
  directory, each named by its last component, sorted by the key (is a file, lower-case
  name): no file stands before a directory, and among entries of the same class the
  lower-case names ascend. The lower-case form of a name is taken letter by letter, and
  on the ASCII letters it turns \<open>A\<close> to \<open>Z\<close> into \<open>a\<close> to \<open>z\<close> and keeps every other
  character. The example lists a directory of three directories and three files whose
  names differ in case.
\<close>

theorem listing_order:
  assumes "pane_refresh fs pane = Inr pane'"
  shows "entries pane' \<noteq> []
     \<and> entries pane' ! 0 = parent (path pane')
     \<and> (\<exists>items. iterdir fs (path pane') = Inr items \<and> mset (tl (entries pane')) = mset items)
     \<and> (\<forall>e\<in>set (tl (entries pane')). \<exists>x. e = path pane' @ [x] \<and> name e = x)
     \<and> sorted (map (entry_key fs) (tl (entries pane')))
     \<and> (\<forall>i j. i < j \<longrightarrow> j < length (tl (entries pane')) \<longrightarrow>
           \<not> (is_file fs (tl (entries pane') ! i) \<and> is_dir fs (tl (entries pane') ! j))
           \<and> (is_file fs (tl (entries pane') ! i) = is_file fs (tl (entries pane') ! j)
                \<longrightarrow> lower (name (tl (entries pane') ! i))
                      \<le> lower (name (tl (entries pane') ! j))))
     \<and> lower [] = [] \<and> (\<forall>s t. lower (s @ t) = lower s @ lower t)
     \<and> (\<forall>c. (of_char c :: int) < 128 \<longrightarrow>
           lower [c] = [if 65 \<le> (of_char c :: int) \<and> (of_char c :: int) \<le> 90
                        then char_of (of_char c + 32 :: int) else c])"
proof -
  from pane_refresh_ok [OF assms] obtain items where
    it: "iterdir fs (path pane) = Inr items"
    and es: "entries pane' = parent (path pane) # sort_key (entry_key fs) items"
    and pa: "path pane' = path pane" by blast
  let ?r = "tl (entries pane')"
  have r: "?r = sort_key (entry_key fs) items" using es by simp
  have s: "sorted (map (entry_key fs) ?r)" unfolding r by (rule sorted_sort_key)
  have pair: "\<not> (is_file fs (?r ! i) \<and> is_dir fs (?r ! j))
      \<and> (is_file fs (?r ! i) = is_file fs (?r ! j)
            \<longrightarrow> lower (name (?r ! i)) \<le> lower (name (?r ! j)))"
    if "i < j" "j < length ?r" for i j
  proof -
    from that have "map (entry_key fs) ?r ! i \<le> map (entry_key fs) ?r ! j"
      using s by (simp add: sorted_iff_nth_mono)
    with that have "entry_key fs (?r ! i) \<le> entry_key fs (?r ! j)" by simp
    then show ?thesis
      by (auto simp: entry_key_def is_file_def is_dir_def split: option.splits node.splits)
  qed
  have kids: "\<forall>e\<in>set ?r. \<exists>x. e = path pane' @ [x] \<and> name e = x"
    using iterdir_children [OF it] r pa by simp
  have low: "lower [] = [] \<and> (\<forall>s t. lower (s @ t) = lower s @ lower t)"
    by (simp add: lower_def)
  show ?thesis using es pa it s pair r kids low lower_ascii by auto
qed

theorem listing_order_witness:
  "pane_refresh demo_mixed \<lparr>path = [''docs''], cursor = 0, entries = []\<rparr> = Inr demo_docs
   \<and> entries demo_docs ! 0 = parent (path demo_docs)
   \<and> sorted (map (entry_key demo_mixed) (tl (entries demo_docs)))
   \<and> tl (entries demo_docs)
        = [[''docs'', ''alpha''], [''docs'', ''Beta''], [''docs'', ''Zeta''],
           [''docs'', ''a.txt''], [''docs'', ''b.txt''], [''docs'', ''C.txt'']]
   \<and> lower ''C.txt'' = ''c.txt'' \<and> lower ''Beta'' = ''beta''
   \<and> entry_key demo_mixed [''docs'', ''Beta''] = (False, ''beta'')
   \<and> entry_key demo_mixed [''docs'', ''C.txt''] = (True, ''c.txt'')"
proof -
  have t: "tl (entries demo_docs)
        = [[''docs'', ''alpha''], [''docs'', ''Beta''], [''docs'', ''Zeta''],
           [''docs'', ''a.txt''], [''docs'', ''b.txt''], [''docs'', ''C.txt'']]"
    by (simp add: demo_docs_def)
  have l: "lower ''C.txt'' = ''c.txt''" "lower ''Beta'' = ''beta''"
    "entry_key demo_mixed [''docs'', ''Beta''] = (False, ''beta'')"
    "entry_key demo_mixed [''docs'', ''C.txt''] = (True, ''c.txt'')"
    by code_simp+
  show ?thesis using t l demo_listing_mixed listing_order [OF demo_listing_mixed] by blast
qed

section \<open>The cursor and the event loop\<close>

lemma pane_refresh_pane_ok:
  assumes "pane_refresh fs pane = Inr pane'" and "0 \<le> cursor pane"
  shows "pane_ok pane'"
  using pane_refresh_ok [OF assms(1)] assms(2) by (auto simp: pane_ok_def)

lemma pane_refresh_again:
  assumes "pane_refresh fs pane = Inr pane'"
  shows "\<exists>pane''. pane_refresh fs pane' = Inr pane''"
  using pane_refresh_ok [OF assms] by (auto simp: pane_refresh_def Let_def)

lemma refresh_panes_length: "refresh_panes fs ps = (r, ps') \<Longrightarrow> length ps' = length ps"
  by (induction ps arbitrary: r ps') (auto split: sum.splits prod.splits)

lemma refresh_panes_cursor:
  "refresh_panes fs ps = (r, ps') \<Longrightarrow> list_all (\<lambda>p. 0 \<le> cursor p) ps
     \<Longrightarrow> list_all (\<lambda>p. 0 \<le> cursor p) ps'"
proof (induction ps arbitrary: r ps')
  case Nil
  then show ?case by simp
next
  case (Cons p ps)
  show ?case
  proof (cases "pane_refresh fs p")
    case (Inl e)
    with Cons.prems show ?thesis by auto
  next
    case (Inr p')
    from pane_refresh_pane_ok [OF Inr] Cons.prems have "0 \<le> cursor p'"
      by (simp add: pane_ok_def)
    with Inr Cons show ?thesis by (auto split: prod.splits)
  qed
qed

lemma refresh_panes_ok:
  "refresh_panes fs ps = (None, ps') \<Longrightarrow> list_all (\<lambda>p. 0 \<le> cursor p) ps
     \<Longrightarrow> list_all pane_ok ps'"
proof (induction ps arbitrary: ps')
  case Nil
  then show ?case by simp
next
  case (Cons p ps)
  then show ?case
    by (auto split: sum.splits prod.splits dest: pane_refresh_pane_ok)
qed

lemma refresh_panes_again:
  "refresh_panes fs ps = (None, ps') \<Longrightarrow> fst (refresh_panes fs ps') = None"
proof (induction ps arbitrary: ps')
  case Nil
  then show ?case by simp
next
  case (Cons p ps)
  from Cons.prems obtain p' qs where p': "pane_refresh fs p = Inr p'"
    and qs: "refresh_panes fs ps = (None, qs)" and ps': "ps' = p' # qs"
    by (auto split: sum.splits prod.splits)
  from pane_refresh_again [OF p'] obtain p'' where "pane_refresh fs p' = Inr p''" by blast
  with Cons.IH [OF qs] ps' show ?case by (auto split: prod.splits)
qed

lemma fm_ok_pre: "fm_ok fm \<Longrightarrow> fm_pre fm"
  by (auto simp: fm_ok_def fm_pre_def pane_ok_def list_all_iff)

lemma fm_pre_status [simp]: "fm_pre (fm\<lparr>status := s\<rparr>) = fm_pre fm"
  by (simp add: fm_pre_def)

lemma refresh_status:
  "refresh fs (fm\<lparr>status := s\<rparr>) = (fst (refresh fs fm), (snd (refresh fs fm))\<lparr>status := s\<rparr>)"
  by (simp add: refresh_def split: prod.splits)

lemma refresh_pre: "refresh fs fm = (r, fm') \<Longrightarrow> fm_pre fm \<Longrightarrow> fm_pre fm'"
  by (auto simp: refresh_def fm_pre_def split: prod.splits
           dest: refresh_panes_length refresh_panes_cursor)

lemma refresh_ok: "refresh fs fm = (None, fm') \<Longrightarrow> fm_pre fm \<Longrightarrow> fm_ok fm'"
  by (auto simp: refresh_def fm_pre_def fm_ok_def split: prod.splits
           dest: refresh_panes_length refresh_panes_ok)

lemma refresh_again: "refresh fs fm = (None, fm') \<Longrightarrow> fst (refresh fs fm') = None"
  by (auto simp: refresh_def split: prod.splits dest: refresh_panes_again)

lemma final_refresh_ok:
  "final_refresh (fm, fs) = Continue (fm', fs') \<Longrightarrow> fm_pre fm
     \<Longrightarrow> fm_ok fm' \<and> fs' = fs \<and> fst (refresh fs fm') = None"
  by (auto simp: final_refresh_def split: prod.splits option.splits
           dest: refresh_ok refresh_again)

lemma pane_refresh_fresh:
  assumes "pane_refresh fs pane = Inr pane'" and "0 \<le> cursor pane"
  shows "fresh fs pane'"
  using pane_refresh_ok [OF assms(1)] assms(2)
  by (auto simp: fresh_def pane_refresh_def Let_def)

lemma fresh_cursor:
  assumes "fresh fs pane" and "0 \<le> c" and "c < int (length (entries pane))"
  shows "fresh fs (pane\<lparr>cursor := c\<rparr>)"
proof -
  from assms(1) have r: "pane_refresh fs pane = Inr pane" by (simp add: fresh_def)
  from pane_refresh_ok [OF r] obtain items where
    it: "iterdir fs (path pane) = Inr items"
    and es: "entries pane = parent (path pane) # sort_key (entry_key fs) items" by blast
  have "pane\<lparr>cursor := c\<rparr>\<lparr>entries := entries pane, cursor := c\<rparr> = pane\<lparr>cursor := c\<rparr>"
    by simp
  then show ?thesis
    using it es assms(2,3) unfolding fresh_def pane_refresh_def Let_def
    by (simp del: length_sort)
qed

lemma refresh_panes_fresh:
  "refresh_panes fs ps = (None, ps') \<Longrightarrow> list_all (\<lambda>p. 0 \<le> cursor p) ps
     \<Longrightarrow> list_all (fresh fs) ps'"
proof (induction ps arbitrary: ps')
  case Nil
  then show ?case by simp
next
  case (Cons p ps)
  then show ?case
    by (auto split: sum.splits prod.splits dest: pane_refresh_fresh)
qed

lemma refresh_panes_same: "list_all (fresh fs) ps \<Longrightarrow> refresh_panes fs ps = (None, ps)"
  by (induction ps) (auto simp: fresh_def)

lemma refresh_same: "list_all (fresh fs) (panes fm) \<Longrightarrow> refresh fs fm = (None, fm)"
  by (simp add: refresh_def refresh_panes_same)

lemma final_refresh_fresh:
  "final_refresh (fm, fs) = Continue (fm', fs') \<Longrightarrow> fm_pre fm
     \<Longrightarrow> list_all (fresh fs') (panes fm')"
  by (auto simp: final_refresh_def refresh_def fm_pre_def
           split: prod.splits option.splits dest: refresh_panes_fresh)

lemma delete_entry_fm:
  "delete_entry entry (fm, fs) = (r, fm', fs') \<Longrightarrow>
     panes fm' = panes fm \<and> active fm' = active fm"
  by (auto simp: delete_entry_def split: if_splits prod.splits option.splits)

lemma rename_entry_fm:
  "rename_entry t entry (fm, fs) = (r, fm', fs') \<Longrightarrow>
     panes fm' = panes fm \<and> active fm' = active fm"
  by (auto simp: rename_entry_def split: if_splits sum.splits prod.splits option.splits)

lemma make_dir_fm:
  "make_dir t (fm, fs) = (r, fm', fs') \<Longrightarrow>
     panes fm' = panes fm \<and> active fm' = active fm"
  by (auto simp: make_dir_def split: if_splits sum.splits prod.splits option.splits)

lemma set_cursor_pre:
  "fm_pre fm \<Longrightarrow> 0 \<le> c \<Longrightarrow> fm_pre (set_cursor fm i c)"
  by (auto simp: fm_pre_def set_cursor_def list_all_iff dest!: set_update_subset_insert [THEN subsetD]
           intro: nth_mem)

lemma open_entry_pre:
  "open_entry entry l (fm, fs) = (r, fm', fs') \<Longrightarrow> fm_pre fm \<Longrightarrow> fm_pre fm' \<and> r = None"
  by (auto simp: open_entry_def fm_pre_def list_all_iff split: if_splits option.splits
           dest!: set_update_subset_insert [THEN subsetD])

lemma flow_of_Done: "flow_of x = Done w \<longleftrightarrow> x = (None, w)"
  by (cases x; cases "fst x") auto

lemma flow_of_Raised: "flow_of x = Raised e w \<longleftrightarrow> x = (Some e, w)"
  by (cases x; cases "fst x") auto

lemma dispatch_pre:
  assumes ok: "fm_ok fm"
    and d: "dispatch ev entry (fm, fs) = Done (fm', fs') \<or> dispatch ev entry (fm, fs) = Raised e (fm', fs')"
  shows "fm_pre fm'"
proof -
  note pre = fm_ok_pre [OF ok]
  have a: "active fm < length (panes fm)" using ok by (simp add: fm_ok_def)
  then have pk: "pane_ok (panes fm ! active fm)" using ok by (simp add: fm_ok_def list_all_length)
  have up: "(0::int) \<le> max 0 (cursor (panes fm ! active fm) - 1)" by simp
  have down: "0 \<le> min (int (length (entries (panes fm ! active fm))) - 1)
                       (cursor (panes fm ! active fm) + 1)"
    using pk by (auto simp: pane_ok_def)
  have oth: "fm_pre (fm\<lparr>active := other_index fm\<rparr>)"
    using pre by (auto simp: fm_pre_def other_index_def)
  show ?thesis
    using d pre oth set_cursor_pre [OF pre up] set_cursor_pre [OF pre down]
    unfolding dispatch_def Let_def
    by (auto split: if_splits prod.splits sum.splits option.splits
             simp: flow_of_Done flow_of_Raised fm_pre_def
             dest!: delete_entry_fm rename_entry_fm make_dir_fm
             dest: open_entry_pre [unfolded fm_pre_def] refresh_pre [unfolded fm_pre_def])
qed

lemma step_cases:
  assumes "step ev (fm, fs) = Continue w'"
  obtains entry fm1 fs1 where "draw ev (fm, fs) = None"
    and "selected (panes fm ! active fm) = Inr entry"
    and "dispatch ev entry (fm, fs) = Done (fm1, fs1) \<and> final_refresh (fm1, fs1) = Continue w'
         \<or> (\<exists>e fm0. dispatch ev entry (fm, fs) = Raised e (fm0, fs1)
               \<and> fm1 = fm0\<lparr>status := Failed e\<rparr> \<and> final_refresh (fm1, fs1) = Continue w')"
proof -
  from assms obtain entry where d: "draw ev (fm, fs) = None"
    and sel: "selected (panes fm ! active fm) = Inr entry"
    by (auto simp: step_def split: option.splits sum.splits)
  show thesis
  proof (cases "dispatch ev entry (fm, fs)")
    case Quit
    with assms d sel show ?thesis by (simp add: step_def)
  next
    case (Done w)
    obtain fm1 fs1 where "w = (fm1, fs1)" by (cases w)
    with assms d sel Done that show ?thesis by (simp add: step_def)
  next
    case (Raised e w)
    obtain fm0 fs1 where "w = (fm0, fs1)" by (cases w)
    with assms d sel Raised that [of entry "fm0\<lparr>status := Failed e\<rparr>" fs1] show ?thesis
      by (simp add: step_def)
  qed
qed

lemma step_inv:
  assumes ok: "fm_ok fm" and st: "step ev (fm, fs) = Continue (fm', fs')"
  shows "fm_ok fm' \<and> list_all (fresh fs') (panes fm')"
proof -
  from st obtain entry fm1 fs1 where
    c: "dispatch ev entry (fm, fs) = Done (fm1, fs1) \<and> final_refresh (fm1, fs1) = Continue (fm', fs')
         \<or> (\<exists>e fm0. dispatch ev entry (fm, fs) = Raised e (fm0, fs1)
               \<and> fm1 = fm0\<lparr>status := Failed e\<rparr> \<and> final_refresh (fm1, fs1) = Continue (fm', fs'))"
    by (rule step_cases)
  then have "fm_pre fm1 \<and> final_refresh (fm1, fs1) = Continue (fm', fs')"
    using dispatch_pre [OF ok] by (metis fm_pre_status)
  then show ?thesis using final_refresh_ok final_refresh_fresh by blast
qed

lemma loop_inv:
  "loop evs (fm, fs) = Continue (fm', fs') \<Longrightarrow> fm_ok fm \<Longrightarrow> list_all (fresh fs) (panes fm)
     \<Longrightarrow> fm_ok fm' \<and> list_all (fresh fs') (panes fm')"
proof (induction evs arbitrary: fm fs)
  case Nil
  then show ?case by simp
next
  case (Cons ev evs)
  from Cons.prems(1) obtain fm1 fs1 where s: "step ev (fm, fs) = Continue (fm1, fs1)"
    and l: "loop evs (fm1, fs1) = Continue (fm', fs')"
    by (auto split: outcome.splits)
  from step_inv [OF Cons.prems(2) s] Cons.IH [OF l] show ?case by blast
qed

lemma init_pre: "fm_pre (init left right)"
  by (simp add: fm_pre_def init_def)

lemma run_inv:
  assumes "run evs (init left right, fs0) = Continue (fm, fs)"
  shows "fm_ok fm \<and> list_all (fresh fs) (panes fm)"
proof -
  from assms obtain fm0 where r: "refresh fs0 (init left right) = (None, fm0)"
    and l: "loop evs (fm0, fs0) = Continue (fm, fs)"
    by (auto simp: run_def split: prod.splits option.splits)
  have "final_refresh (init left right, fs0) = Continue (fm0, fs0)"
    using r by (simp add: final_refresh_def)
  from final_refresh_ok [OF this init_pre] final_refresh_fresh [OF this init_pre]
    loop_inv [OF l] show ?thesis by blast
qed

lemma loop_snoc:
  "loop (evs @ [ev]) w =
     (case loop evs w of Continue w' \<Rightarrow> step ev w' | Exit \<Rightarrow> Exit | Abort e \<Rightarrow> Abort e)"
  by (induction evs arbitrary: w) (auto split: outcome.splits)

lemma run_snoc:
  "run (evs @ [ev]) w =
     (case run evs w of Continue w' \<Rightarrow> step ev w' | Exit \<Rightarrow> Exit | Abort e \<Rightarrow> Abort e)"
  by (cases w) (auto simp: run_def loop_snoc split: prod.splits option.splits)


lemma cursor_step:
  assumes ok: "fm_ok fm" and fr: "list_all (fresh fs) (panes fm)"
    and st: "step ev (fm, fs) = Continue (fm', fs')"
    and d: "\<And>entry. dispatch ev entry (fm, fs) = Done (set_cursor fm (active fm) c, fs)"
    and c: "0 \<le> c" "c < int (length (entries (panes fm ! active fm)))"
  shows "fs' = fs
     \<and> fm' = fm\<lparr>panes := (panes fm)[active fm := (panes fm ! active fm)\<lparr>cursor := c\<rparr>]\<rparr>"
proof -
  have a: "active fm < length (panes fm)" using ok by (simp add: fm_ok_def)
  from fr a have "fresh fs (panes fm ! active fm)" by (simp add: list_all_length)
  from fresh_cursor [OF this c] fr a
  have "list_all (fresh fs) (panes (set_cursor fm (active fm) c))"
    by (auto simp: set_cursor_def list_all_length nth_list_update)
  then have r: "final_refresh (set_cursor fm (active fm) c, fs)
                  = Continue (set_cursor fm (active fm) c, fs)"
    by (simp add: final_refresh_def refresh_same)
  from st obtain entry where "draw ev (fm, fs) = None"
    and "selected (panes fm ! active fm) = Inr entry"
    by (auto simp: step_def split: option.splits sum.splits)
  with st d [of entry] r show ?thesis by (simp add: step_def set_cursor_def)
qed

lemma demo_fm_ok: "fm_ok demo_fm"
  by (simp add: fm_ok_def demo_fm_def pane_ok_def demo_left_def demo_right_def)

lemma demo_run:
  "run [demo_down, demo_down] (init [''left''] [''right''], demo_fs) = Continue (demo_fm, demo_fs)"
  by code_simp

lemma demo_run_top:
  "run [] (init [''left''] [''right''], demo_fs) = Continue (demo_top, demo_fs)"
  by code_simp

lemma demo_step_up:
  "step demo_up (demo_fm, demo_fs)
     = Continue (demo_fm\<lparr>panes := [demo_left\<lparr>cursor := 1\<rparr>, demo_right]\<rparr>, demo_fs)"
  by code_simp

lemma demo_step_up_top: "step demo_up (demo_top, demo_fs) = Continue (demo_top, demo_fs)"
  by code_simp

lemma demo_step_up_mid:
  "step demo_up (demo_mid, demo_fs) = Continue (demo_top, demo_fs)"
  by code_simp

lemma demo_step_down_mid:
  "step demo_down (demo_mid, demo_fs) = Continue (demo_fm, demo_fs)"
  by code_simp

lemma demo_step_down_top:
  "step demo_down (demo_top, demo_fs)
     = Continue (demo_top\<lparr>panes := [demo_left\<lparr>cursor := 1\<rparr>, demo_right]\<rparr>, demo_fs)"
  by code_simp

lemma demo_step: "step demo_down (demo_fm, demo_fs) = Continue (demo_fm, demo_fs)"
  by code_simp

lemma demo_step_delete:
  "step demo_delete (demo_fm, demo_fs)
     = Continue (\<lparr>panes = [\<lparr>path = [''left''], cursor = 1,
                              entries = [[], [''left'', ''folder'']]\<rparr>, demo_right],
                  active = 0, status = Deleted ''a.txt''\<rparr>, demo_fs_deleted)"
  by code_simp

lemma demo_listing:
  "pane_refresh demo_fs \<lparr>path = [''left''], cursor = 7, entries = []\<rparr> = Inr demo_left"
  by code_simp

text \<open>
  Claim C7. The invariant \<open>fm_ok\<close> says that there are two panes, one of them active,
  and that each has entries and a cursor with \<open>0 \<le> cursor < len(entries)\<close>. It holds in
  every state the event loop reaches and after every iteration that starts from a state
  with the invariant. In a state the loop has reached, an iteration with the up key
  (code 259 or \<open>k\<close>) changes nothing but the cursor of the active pane, which becomes
  \<open>max(0, cursor - 1)\<close>, and one with the down key (code 258 or \<open>j\<close>) makes it
  \<open>min(len(entries) - 1, cursor + 1)\<close>, so at the last index the state stays as it is.
  A refresh that finds the cursor beyond the new list puts it on the last entry. The
  example moves up and down in the middle and at both ends of a list, and deletes the
  last entry under the cursor.
\<close>

theorem cursor_invariant:
  "fm_ok fm = (length (panes fm) = 2 \<and> active fm < 2
               \<and> (\<forall>p\<in>set (panes fm). entries p \<noteq> [] \<and> 0 \<le> cursor p
                                         \<and> cursor p < int (length (entries p))))
   \<and> (run evs (init left right, fs0) = Continue (fm, fs) \<longrightarrow> fm_ok fm)
   \<and> (fm_ok fm \<and> step ev (fm, fs) = Continue (fm', fs') \<longrightarrow> fm_ok fm')
   \<and> (run evs (init left right, fs0) = Continue (fm, fs)
        \<and> step ev (fm, fs) = Continue (fm', fs') \<and> (key ev = 259 \<or> key ev = 107) \<longrightarrow>
        fs' = fs
      \<and> fm' = fm\<lparr>panes := (panes fm)[active fm := (panes fm ! active fm)
                 \<lparr>cursor := max 0 (cursor (panes fm ! active fm) - 1)\<rparr>]\<rparr>)
   \<and> (run evs (init left right, fs0) = Continue (fm, fs)
        \<and> step ev (fm, fs) = Continue (fm', fs') \<and> (key ev = 258 \<or> key ev = 106) \<longrightarrow>
        fs' = fs
      \<and> fm' = fm\<lparr>panes := (panes fm)[active fm := (panes fm ! active fm)
                 \<lparr>cursor := min (int (length (entries (panes fm ! active fm))) - 1)
                               (cursor (panes fm ! active fm) + 1)\<rparr>]\<rparr>
      \<and> (cursor (panes fm ! active fm) = int (length (entries (panes fm ! active fm))) - 1
            \<longrightarrow> fm' = fm))
   \<and> (0 \<le> cursor pane \<and> pane_refresh fs pane = Inr pane' \<longrightarrow>
        entries pane' \<noteq> [] \<and> 0 \<le> cursor pane'
      \<and> cursor pane' < int (length (entries pane'))
      \<and> cursor pane' = (if int (length (entries pane')) \<le> cursor pane
                         then int (length (entries pane')) - 1 else cursor pane))"
proof (intro conjI impI)
  show "fm_ok fm = (length (panes fm) = 2 \<and> active fm < 2
               \<and> (\<forall>p\<in>set (panes fm). entries p \<noteq> [] \<and> 0 \<le> cursor p
                                         \<and> cursor p < int (length (entries p))))"
    by (simp add: fm_ok_def pane_ok_def list_all_iff)
next
  assume "run evs (init left right, fs0) = Continue (fm, fs)"
  then show "fm_ok fm" using run_inv by blast
next
  assume "fm_ok fm \<and> step ev (fm, fs) = Continue (fm', fs')"
  then show "fm_ok fm'" using step_inv by blast
next
  assume h: "run evs (init left right, fs0) = Continue (fm, fs)
        \<and> step ev (fm, fs) = Continue (fm', fs') \<and> (key ev = 259 \<or> key ev = 107)"
  then have ok: "fm_ok fm" and fr: "list_all (fresh fs) (panes fm)" using run_inv by blast+
  then have pk: "pane_ok (panes fm ! active fm)" by (simp add: fm_ok_def list_all_length)
  have d: "dispatch ev entry (fm, fs)
      = Done (set_cursor fm (active fm) (max 0 (cursor (panes fm ! active fm) - 1)), fs)" for entry
    using h by (auto simp: dispatch_def Let_def KEY_UP_def)
  have c: "0 \<le> max 0 (cursor (panes fm ! active fm) - 1)"
    "max 0 (cursor (panes fm ! active fm) - 1) < int (length (entries (panes fm ! active fm)))"
    using pk by (auto simp: pane_ok_def)
  from h have st: "step ev (fm, fs) = Continue (fm', fs')" by simp
  from cursor_step [OF ok fr st d c]
  show "fs' = fs" and "fm' = fm\<lparr>panes := (panes fm)[active fm := (panes fm ! active fm)
                 \<lparr>cursor := max 0 (cursor (panes fm ! active fm) - 1)\<rparr>]\<rparr>"
    by simp_all
next
  assume h: "run evs (init left right, fs0) = Continue (fm, fs)
        \<and> step ev (fm, fs) = Continue (fm', fs') \<and> (key ev = 258 \<or> key ev = 106)"
  then have ok: "fm_ok fm" and fr: "list_all (fresh fs) (panes fm)" using run_inv by blast+
  then have pk: "pane_ok (panes fm ! active fm)" by (simp add: fm_ok_def list_all_length)
  let ?c = "min (int (length (entries (panes fm ! active fm))) - 1)
                (cursor (panes fm ! active fm) + 1)"
  have d: "dispatch ev entry (fm, fs) = Done (set_cursor fm (active fm) ?c, fs)" for entry
    using h by (auto simp: dispatch_def Let_def KEY_DOWN_def KEY_UP_def)
  have c: "0 \<le> ?c" "?c < int (length (entries (panes fm ! active fm)))"
    using pk by (auto simp: pane_ok_def)
  from h have st: "step ev (fm, fs) = Continue (fm', fs')" by simp
  from cursor_step [OF ok fr st d c]
  show "fs' = fs" and e: "fm' = fm\<lparr>panes := (panes fm)[active fm := (panes fm ! active fm)
                 \<lparr>cursor := ?c\<rparr>]\<rparr>"
    by simp_all
  assume l: "cursor (panes fm ! active fm) = int (length (entries (panes fm ! active fm))) - 1"
  have "(panes fm ! active fm)\<lparr>cursor := cursor (panes fm ! active fm)\<rparr> = panes fm ! active fm"
    by simp
  then have "(panes fm ! active fm)
      \<lparr>cursor := int (length (entries (panes fm ! active fm))) - 1\<rparr> = panes fm ! active fm"
    using l by simp
  with e l show "fm' = fm" by simp
next
  assume h: "0 \<le> cursor pane \<and> pane_refresh fs pane = Inr pane'"
  then have "pane_ok pane'" using pane_refresh_pane_ok by blast
  then show "entries pane' \<noteq> []" "0 \<le> cursor pane'"
    "cursor pane' < int (length (entries pane'))"
    by (simp_all add: pane_ok_def)
  show "cursor pane' = (if int (length (entries pane')) \<le> cursor pane
                         then int (length (entries pane')) - 1 else cursor pane)"
    using h pane_refresh_ok [of fs pane pane'] by auto
qed

theorem cursor_invariant_witness:
  "run [demo_down, demo_down] (init [''left''] [''right''], demo_fs) = Continue (demo_fm, demo_fs)
   \<and> fm_ok demo_fm
   \<and> cursor (panes demo_fm ! active demo_fm) = 2
   \<and> length (entries (panes demo_fm ! active demo_fm)) = 3
   \<and> step demo_up (demo_fm, demo_fs)
        = Continue (demo_fm\<lparr>panes := [demo_left\<lparr>cursor := 1\<rparr>, demo_right]\<rparr>, demo_fs)
   \<and> step demo_down (demo_fm, demo_fs) = Continue (demo_fm, demo_fs)
   \<and> run [] (init [''left''] [''right''], demo_fs) = Continue (demo_top, demo_fs)
   \<and> cursor (panes demo_top ! active demo_top) = 0
   \<and> step demo_up (demo_top, demo_fs) = Continue (demo_top, demo_fs)
   \<and> step demo_down (demo_top, demo_fs)
        = Continue (demo_top\<lparr>panes := [demo_left\<lparr>cursor := 1\<rparr>, demo_right]\<rparr>, demo_fs)
   \<and> cursor (panes demo_mid ! active demo_mid) = 1
   \<and> step demo_up (demo_mid, demo_fs) = Continue (demo_top, demo_fs)
   \<and> step demo_down (demo_mid, demo_fs) = Continue (demo_fm, demo_fs)
   \<and> step demo_delete (demo_fm, demo_fs)
        = Continue (\<lparr>panes = [\<lparr>path = [''left''], cursor = 1,
                                 entries = [[], [''left'', ''folder'']]\<rparr>, demo_right],
                     active = 0, status = Deleted ''a.txt''\<rparr>, demo_fs_deleted)
   \<and> pane_refresh demo_fs \<lparr>path = [''left''], cursor = 7, entries = []\<rparr> = Inr demo_left
   \<and> cursor demo_left = 2"
proof -
  have k: "key demo_down = 258 \<or> key demo_down = 106"
    by (simp add: demo_down_def press_def KEY_DOWN_def)
  have c: "cursor (panes demo_fm ! active demo_fm) = 2"
    "length (entries (panes demo_fm ! active demo_fm)) = 3"
    "cursor (panes demo_top ! active demo_top) = 0"
    "cursor (panes demo_mid ! active demo_mid) = 1"
    "cursor demo_left = 2"
    by (simp_all add: demo_fm_def demo_top_def demo_mid_def demo_left_def)
  have l: "cursor (panes demo_fm ! active demo_fm)
             = int (length (entries (panes demo_fm ! active demo_fm))) - 1"
    using c by simp
  from cursor_invariant [where evs = "[demo_down, demo_down]" and left = "[''left'']"
      and right = "[''right'']" and ?fs0.0 = demo_fs and fm = demo_fm and fs = demo_fs
      and ev = demo_down and fm' = demo_fm and fs' = demo_fs]
    demo_run demo_step k l
  have "fm_ok demo_fm" by blast
  then show ?thesis
    using c demo_run demo_run_top demo_step demo_step_up demo_step_up_top demo_step_down_top
      demo_step_up_mid demo_step_down_mid
      demo_step_delete demo_listing
    by simp
qed

text \<open>
  Claim C3 does not hold of the code. An exception of a file operation is caught in the
  loop and becomes the status, but the refresh that follows the \<open>try\<close> statement stands
  outside of it, and the operation may have changed the file system before it raised.
  The directory \<open>home\<close> cannot be written and holds the directory \<open>top\<close>, which holds
  the empty directory \<open>a\<close>. The left pane shows \<open>home\<close> with the cursor on \<open>top\<close>, the
  right pane shows \<open>a\<close>. Deleting \<open>top\<close> removes \<open>a\<close>, fails to remove \<open>top\<close> itself
  and raises; the exception is caught, and the refresh of the right pane, whose directory
  is gone, raises out of \<open>run\<close>.
\<close>

theorem exception_not_contained:
  "run [demo_down] (init [''home''] [''home'', ''top'', ''a''], demo_locked)
     = Continue (demo_locked_fm, demo_locked)
   \<and> selected (panes demo_locked_fm ! active demo_locked_fm) = Inr [''home'', ''top'']
   \<and> delete_entry [''home'', ''top''] (demo_locked_fm, demo_locked)
        = (Some PermissionError, demo_locked_fm, demo_locked_after)
   \<and> dispatch demo_delete [''home'', ''top''] (demo_locked_fm, demo_locked)
        = Raised PermissionError (demo_locked_fm, demo_locked_after)
   \<and> step demo_delete (demo_locked_fm, demo_locked) = Abort FileNotFoundError
   \<and> run [demo_down, demo_delete] (init [''home''] [''home'', ''top'', ''a''], demo_locked)
        = Abort FileNotFoundError"
  by code_simp

section \<open>Prompts, rename and make-directory\<close>

lemma strip_blank:
  assumes "\<forall>c\<in>set s. is_space c"
  shows "strip s = []"
proof -
  from assms have e: "dropWhile is_space s = []" by (simp only: dropWhile_eq_Nil_conv)
  show ?thesis unfolding strip_def e by simp
qed

lemma strip_ends:
  "strip s = [] \<or> (\<not> is_space (hd (strip s)) \<and> \<not> is_space (last (strip s)))"
proof (cases "strip s = []")
  case True
  then show ?thesis by simp
next
  case False
  let ?t = "dropWhile is_space s"
  let ?d = "dropWhile is_space (rev ?t)"
  from False have d: "?d \<noteq> []" by (simp add: strip_def)
  have t: "?t \<noteq> []"
  proof
    assume "?t = []"
    with d show False by simp
  qed
  have "\<not> is_space (hd ?d)" using d by (rule hd_dropWhile)
  then have e: "\<not> is_space (last (strip s))" using d by (simp add: strip_def last_rev)
  have "rev ?t = takeWhile is_space (rev ?t) @ ?d" by simp
  then have "last (rev ?t) = last ?d" using d by (metis last_appendR)
  then have "last ?d = hd ?t" using t by (simp add: last_rev)
  moreover have "\<not> is_space (hd ?t)" using t by (rule hd_dropWhile)
  ultimately have "\<not> is_space (hd (strip s))" using d by (simp add: strip_def hd_rev)
  with e show ?thesis by simp
qed

lemma strip_inside:
  "\<exists>a b. s = a @ strip s @ b \<and> (\<forall>c\<in>set a. is_space c) \<and> (\<forall>c\<in>set b. is_space c)"
proof -
  let ?a = "takeWhile is_space s"
  let ?t = "dropWhile is_space s"
  let ?b = "rev (takeWhile is_space (rev ?t))"
  have "rev (takeWhile is_space (rev ?t) @ dropWhile is_space (rev ?t)) = ?t"
    by (simp only: takeWhile_dropWhile_id rev_rev_ident)
  then have "rev (dropWhile is_space (rev ?t)) @ ?b = ?t" by (simp only: rev_append)
  then have "?t = strip s @ ?b" by (simp only: strip_def)
  then have "s = ?a @ strip s @ ?b" by (metis takeWhile_dropWhile_id)
  moreover have "\<forall>c\<in>set ?a. is_space c" by (auto dest: set_takeWhileD)
  moreover have "\<forall>c\<in>set ?b. is_space c" by (auto dest: set_takeWhileD)
  ultimately show ?thesis by blast
qed

lemma is_space_codes:
  "is_space c = (of_char c \<in> {9, 10, 11, 12, 13, 28, 29, 30, 31, 32, 133, 160 :: int})"
  unfolding is_space_def Let_def by (simp; arith)

lemma rename_entry_root:
  "rename_entry answer [] (fm, fs) = (None, fm\<lparr>status := NothingToRename\<rparr>, fs)"
  by (simp add: rename_entry_def parent_def)

text \<open>
  Claim C9. \<open>rename_entry\<close> asks for the new name at every entry that differs from its
  own parent. When the name that \<open>prompt\<close> returns is empty, as it is for an empty line,
  \<open>rename_entry\<close> raises nothing, leaves the file system as it was and sets the status
  to the cancellation message. At the entry that equals its own parent \<open>rename_entry\<close>
  returns before it asks (lemma \<open>rename_entry_root\<close>), so no name is read there; the
  file system stays as it was there too.
\<close>

theorem rename_empty_name:
  assumes "prompt answer = Inr []"
  shows "prompt (Inr []) = Inr []
     \<and> fst (rename_entry answer entry (fm, fs)) = None
     \<and> snd (snd (rename_entry answer entry (fm, fs))) = fs
     \<and> (entry \<noteq> parent entry \<longrightarrow>
          rename_entry answer entry (fm, fs) = (None, fm\<lparr>status := RenameCancelled\<rparr>, fs))"
  using assms by (simp add: rename_entry_def prompt_def strip_def)

theorem rename_empty_name_witness:
  "prompt (Inr []) = Inr []
   \<and> [''left'', ''a.txt''] \<noteq> parent [''left'', ''a.txt'']
   \<and> rename_entry (Inr []) [''left'', ''a.txt''] (demo_fm, demo_fs) =
       (None, demo_fm\<lparr>status := RenameCancelled\<rparr>, demo_fs)
   \<and> [''left''] \<noteq> parent [''left'']
   \<and> rename_entry (Inr []) [''left''] (demo_fm, demo_fs) =
       (None, demo_fm\<lparr>status := RenameCancelled\<rparr>, demo_fs)"
proof -
  have h: "prompt (Inr []) = Inr []" by (simp add: prompt_def strip_def)
  have n: "[''left'', ''a.txt''] \<noteq> parent [''left'', ''a.txt'']" by (simp add: parent_def)
  have m: "[''left''] \<noteq> parent [''left'']" by (simp add: parent_def)
  show ?thesis
    using h n m rename_empty_name [OF h, of "[''left'', ''a.txt'']" demo_fm demo_fs]
      rename_empty_name [OF h, of "[''left'']" demo_fm demo_fs]
    by blast
qed

text \<open>
  Claim C10. \<open>prompt\<close> returns the line it read with the white space at both ends taken
  off: what it returns is the line without a prefix and a suffix of white space, and
  neither starts nor ends with white space, where white space is what \<open>str.strip\<close>
  takes off. \<open>make_dir\<close> makes the directory of that stripped name, and \<open>rename_entry\<close>,
  at an entry where it asks, renames to it, and both report it. A line of white space
  only therefore acts as the empty line: make-directory is cancelled and rename is
  cancelled, without a change to the file system.
\<close>

theorem prompt_strips_input:
  "prompt (Inr line) = Inr (strip line)
   \<and> (\<exists>a b. line = a @ strip line @ b \<and> (\<forall>c\<in>set a. is_space c) \<and> (\<forall>c\<in>set b. is_space c))
   \<and> (strip line = [] \<or> (\<not> is_space (hd (strip line)) \<and> \<not> is_space (last (strip line))))
   \<and> (\<forall>c. is_space c = (of_char c \<in> {9, 10, 11, 12, 13, 28, 29, 30, 31, 32, 133, 160 :: int}))
   \<and> (strip line \<noteq> [] \<longrightarrow>
        make_dir (Inr line) (fm, fs) =
          (case mkdir fs (joinpath (path (panes fm ! active fm)) (strip line)) of
             (Some e, fs') \<Rightarrow> (Some e, fm, fs')
           | (None, fs') \<Rightarrow> (None, fm\<lparr>status := DirCreated (strip line)\<rparr>, fs')))
   \<and> (strip line \<noteq> [] \<and> entry \<noteq> parent entry \<longrightarrow>
        rename_entry (Inr line) entry (fm, fs) =
          (case with_name entry (strip line) of
             Inl e \<Rightarrow> (Some e, fm, fs)
           | Inr target \<Rightarrow>
               (case os_rename fs entry target of
                  (Some e, fs') \<Rightarrow> (Some e, fm, fs')
                | (None, fs') \<Rightarrow> (None, fm\<lparr>status := Renamed (strip line)\<rparr>, fs'))))
   \<and> ((\<forall>c\<in>set line. is_space c) \<longrightarrow>
        strip line = []
      \<and> make_dir (Inr line) (fm, fs) = make_dir (Inr []) (fm, fs)
      \<and> make_dir (Inr line) (fm, fs) = (None, fm\<lparr>status := MkdirCancelled\<rparr>, fs)
      \<and> rename_entry (Inr line) entry (fm, fs) = rename_entry (Inr []) entry (fm, fs)
      \<and> (entry \<noteq> parent entry \<longrightarrow>
           rename_entry (Inr line) entry (fm, fs)
             = (None, fm\<lparr>status := RenameCancelled\<rparr>, fs)))"
proof (intro conjI impI)
  show "prompt (Inr line) = Inr (strip line)" by (simp add: prompt_def)
  show "\<exists>a b. line = a @ strip line @ b \<and> (\<forall>c\<in>set a. is_space c) \<and> (\<forall>c\<in>set b. is_space c)"
    by (rule strip_inside)
  show "strip line = [] \<or> (\<not> is_space (hd (strip line)) \<and> \<not> is_space (last (strip line)))"
    by (rule strip_ends)
  show "\<forall>c. is_space c = (of_char c \<in> {9, 10, 11, 12, 13, 28, 29, 30, 31, 32, 133, 160 :: int})"
    using is_space_codes by blast
next
  assume "strip line \<noteq> []"
  then show "make_dir (Inr line) (fm, fs) =
          (case mkdir fs (joinpath (path (panes fm ! active fm)) (strip line)) of
             (Some e, fs') \<Rightarrow> (Some e, fm, fs')
           | (None, fs') \<Rightarrow> (None, fm\<lparr>status := DirCreated (strip line)\<rparr>, fs'))"
    by (simp add: make_dir_def prompt_def)
next
  assume "strip line \<noteq> [] \<and> entry \<noteq> parent entry"
  then show "rename_entry (Inr line) entry (fm, fs) =
          (case with_name entry (strip line) of
             Inl e \<Rightarrow> (Some e, fm, fs)
           | Inr target \<Rightarrow>
               (case os_rename fs entry target of
                  (Some e, fs') \<Rightarrow> (Some e, fm, fs')
                | (None, fs') \<Rightarrow> (None, fm\<lparr>status := Renamed (strip line)\<rparr>, fs')))"
    by (simp add: rename_entry_def prompt_def)
next
  assume b: "\<forall>c\<in>set line. is_space c"
  have e: "strip [] = []" by (simp add: strip_def)
  from strip_blank [OF b] e
  show "strip line = []"
    and "make_dir (Inr line) (fm, fs) = make_dir (Inr []) (fm, fs)"
    and "make_dir (Inr line) (fm, fs) = (None, fm\<lparr>status := MkdirCancelled\<rparr>, fs)"
    and "rename_entry (Inr line) entry (fm, fs) = rename_entry (Inr []) entry (fm, fs)"
    by (simp_all add: rename_entry_def make_dir_def prompt_def)
next
  assume b: "\<forall>c\<in>set line. is_space c" and n: "entry \<noteq> parent entry"
  from strip_blank [OF b] n
  show "rename_entry (Inr line) entry (fm, fs) = (None, fm\<lparr>status := RenameCancelled\<rparr>, fs)"
    by (simp add: rename_entry_def prompt_def)
qed

lemma demo_blank: "\<forall>c\<in>set [CHR '' '', CHR 0x09]. is_space c"
  by (simp add: is_space_def)

lemma demo_make_dir:
  "make_dir (Inr '' new '') (demo_fm, demo_fs)
     = (None, demo_fm\<lparr>status := DirCreated ''new''\<rparr>, demo_fs_made)"
  by code_simp

lemma demo_rename:
  "rename_entry (Inr '' b.txt '') [''left'', ''a.txt''] (demo_fm, demo_fs)
     = (None, demo_fm\<lparr>status := Renamed ''b.txt''\<rparr>, demo_fs_renamed)"
  by code_simp

theorem prompt_strips_input_witness:
  "is_space CHR '' '' \<and> is_space (CHR 0x09) \<and> \<not> is_space CHR ''n''
   \<and> prompt (Inr '' new '') = Inr ''new''
   \<and> make_dir (Inr '' new '') (demo_fm, demo_fs)
       = (None, demo_fm\<lparr>status := DirCreated ''new''\<rparr>, demo_fs_made)
   \<and> is_dir demo_fs_made [''left'', ''new'']
   \<and> rename_entry (Inr '' b.txt '') [''left'', ''a.txt''] (demo_fm, demo_fs)
       = (None, demo_fm\<lparr>status := Renamed ''b.txt''\<rparr>, demo_fs_renamed)
   \<and> lookup demo_fs_renamed [''left'', ''b.txt''] = Some (File demo_file ''hello'')
   \<and> make_dir (Inr [CHR '' '', CHR 0x09]) (demo_fm, demo_fs)
       = (None, demo_fm\<lparr>status := MkdirCancelled\<rparr>, demo_fs)
   \<and> rename_entry (Inr [CHR '' '', CHR 0x09]) [''left'', ''a.txt''] (demo_fm, demo_fs)
       = (None, demo_fm\<lparr>status := RenameCancelled\<rparr>, demo_fs)"
proof -
  have s: "is_space CHR '' ''" "is_space (CHR 0x09)" "\<not> is_space CHR ''n''"
    "prompt (Inr '' new '') = Inr ''new''"
    "is_dir demo_fs_made [''left'', ''new'']"
    "lookup demo_fs_renamed [''left'', ''b.txt''] = Some (File demo_file ''hello'')"
    by code_simp+
  have n: "[''left'', ''a.txt''] \<noteq> parent [''left'', ''a.txt'']" by (simp add: parent_def)
  show ?thesis
    using demo_blank s n demo_make_dir demo_rename
      prompt_strips_input [where fm = demo_fm and fs = demo_fs
        and line = "[CHR '' '', CHR 0x09]" and entry = "[''left'', ''a.txt'']"]
    by blast
qed


section \<open>The parent entry and failures of listing\<close>

lemma format_entry_root: "format_entry fs [] = Inr ''[..]''"
  by (simp add: format_entry_def parent_def)

text \<open>
  Claim C1 does not hold of the code. \<open>format_entry\<close> recognises the parent entry by
  \<open>path == path.parent\<close>, which is true of the root only (lemma \<open>format_entry_root\<close>).
  In a pane that shows \<open>left/folder\<close> the entry at index 0 is \<open>left\<close>, and it is
  formatted as an ordinary directory line, not as the marker.
\<close>

theorem parent_entry_not_marked:
  "run [] (init [''left'', ''folder''] [''right''], demo_fs) = Continue (demo_deep, demo_fs)
   \<and> entries (panes demo_deep ! active demo_deep) ! 0 = parent [''left'', ''folder'']
   \<and> format_entry demo_fs (entries (panes demo_deep ! active demo_deep) ! 0)
       = Inr ''drwxr-xr-x    <DIR> 1970-01-01 00:00 left/''
   \<and> format_entry demo_fs (entries (panes demo_deep ! active demo_deep) ! 0) \<noteq> Inr ''[..]''"
  by code_simp

text \<open>
  Claim C2 does not hold of the code, for the same reason: \<open>delete_entry\<close> uses the same
  test. In the pane that shows \<open>left/folder\<close> the cursor starts on the parent entry
  \<open>left\<close>; deleting it removes the whole directory \<open>left\<close> and reports success.
\<close>

theorem parent_entry_deleted:
  "run [] (init [''left'', ''folder''] [''right''], demo_fs) = Continue (demo_deep, demo_fs)
   \<and> selected (panes demo_deep ! active demo_deep) = Inr (parent [''left'', ''folder''])
   \<and> delete_entry (parent [''left'', ''folder'']) (demo_deep, demo_fs)
       = (None, demo_deep\<lparr>status := Deleted ''left''\<rparr>,
          Dir demo_dir [(''right'', Dir demo_dir [])])
   \<and> exists_path demo_fs [''left'', ''a.txt'']
   \<and> \<not> exists_path (snd (snd (delete_entry (parent [''left'', ''folder''])
                                    (demo_deep, demo_fs)))) [''left'', ''a.txt'']"
  by code_simp

lemma format_entry_stat_failure:
  assumes "stat fs p = Inl e" and "p \<noteq> parent p"
  shows "format_entry fs p = Inr (''??????????        ? ? '' @ name p)"
proof -
  from assms(1) have "lookup fs p = None" by (auto simp: stat_def split: option.splits)
  then have d: "\<not> is_dir fs p" by (simp add: is_dir_def)
  have o: "is_oserror (missing n q)" for n q
    by (induction n q rule: missing.induct) (auto split: option.splits)
  from assms(1) have "is_oserror e" using o by (auto simp: stat_def split: option.splits)
  then show ?thesis using assms d
    by (simp add: format_entry_def stat_columns_def rjust_def numeral_eq_Suc)
qed

lemma format_entry_raises:
  "format_entry (Dir demo_dir [(''late'', File \<lparr>st_perm = 420, st_mtime = 253402300800\<rparr> [])])
     [''late''] = Inl ValueError"
  by code_simp

text \<open>
  Claim C8 does not hold of the code. A failure of \<open>stat\<close> does give the placeholders
  (lemma \<open>format_entry_stat_failure\<close>), but a failure of the listing is not contained:
  the refresh at the end of an iteration stands outside the \<open>try\<close> statement. With
  the left pane on \<open>left\<close> and the right pane on \<open>left/folder\<close>, moving down to
  \<open>folder\<close> and deleting it leaves the right pane without its directory, and the
  exception of the listing leaves \<open>run\<close>. Formatting itself can raise too (lemma
  \<open>format_entry_raises\<close>): \<open>ValueError\<close> is not an \<open>OSError\<close>.
\<close>

theorem listing_failure_aborts:
  "run [demo_down, demo_delete] (init [''left''] [''left'', ''folder''], demo_fs)
     = Abort FileNotFoundError"
  by code_simp

end
